theory Spec2Isabelle
  imports Main "HOL-Library.Sublist"
begin

section \<open>The Katana engine and its loader actions hook\<close>

text \<open>
  A shallow embedding of the two Python files of the tk-katana engine:
  \<^verbatim>\<open>hooks/tk-katana_actions.py\<close> (class \<^verbatim>\<open>KatanaActions\<close>) and \<^verbatim>\<open>engine.py\<close>
  (class \<^verbatim>\<open>KatanaEngine\<close>).

  Both classes are glue between the Shotgun toolkit (\<^verbatim>\<open>sgtk\<close>/\<^verbatim>\<open>tank\<close>) and Katana's
  \<^verbatim>\<open>NodegraphAPI\<close>. The services they call are not part of the repository; they are taken
  as parameters (record \<open>env\<close>) and are assumed to return normally; the toolkit's
  \<^verbatim>\<open>template_from_path\<close> returns \<^verbatim>\<open>None\<close> for a path that matches no template. What the Python
  code does to the outside world is made explicit: the messages handed to the parent app's
  \<^verbatim>\<open>log_debug\<close>, the calls made into \<^verbatim>\<open>NodegraphAPI\<close>, and the lines printed on standard
  output. Every \<^verbatim>\<open>raise\<close> of the source is a value \<open>Inl e\<close> of the result.
\<close>

subsection \<open>Python values, exceptions and string formatting\<close>

text \<open>Exceptions by class, with the message they are constructed with.\<close>

datatype error =
  Exception string | TankError string | ImportError string | AttributeError string

text \<open>Handles of the host's node graph: nodes and their parameters.\<close>

datatype node = RootNode | Node nat

datatype parameter = Parameter node string

text \<open>What a method of the hook returns: Python's \<^verbatim>\<open>None\<close>, or a node handle.\<close>

datatype pyval = PyNone | NodeHandle node

text \<open>The calls into \<^verbatim>\<open>NodegraphAPI\<close>, with their arguments (and, for the creation of a
  node, the handle the host gave to the new node).\<close>

datatype api_call =
    Call_GetRootNode
  | Call_CreateNode string node node
  | Call_getParameter node string
  | Call_setValue parameter string nat

text \<open>The observable state outside the hook: the messages passed to \<^verbatim>\<open>app.log_debug\<close> and
  the calls received by the host's node graph, both oldest first.\<close>

record world =
  debug_log :: "string list"
  api_calls :: "api_call list"

text \<open>A toolkit template object: its \<^verbatim>\<open>name\<close> attribute and its \<^verbatim>\<open>get_fields\<close> method,
  which returns a dictionary from field names to values.\<close>

record 'obj sgtk_template =
  template_name :: string
  get_fields :: "string \<Rightarrow> (string \<rightharpoonup> 'obj)"

text \<open>The toolkit instance returned by \<^verbatim>\<open>sgtk.tank_from_path\<close>. Its method
  \<^verbatim>\<open>template_from_path\<close> returns the template that matches a path, or \<^verbatim>\<open>None\<close> when no
  template does.\<close>

record 'obj tank =
  template_from_path :: "string \<Rightarrow> 'obj sgtk_template option"

text \<open>The dictionary \<^verbatim>\<open>parameter_dict\<close> of \<^verbatim>\<open>_create_node\<close>, which has exactly the keys
  \<^verbatim>\<open>"template"\<close> and \<^verbatim>\<open>"fields"\<close>.\<close>

record 'obj parameter_dict =
  pd_template :: string
  pd_fields :: "string \<rightharpoonup> 'obj"

text \<open>
  The services the hook uses and does not define: the base class's \<^verbatim>\<open>get_publish_path\<close>,
  \<^verbatim>\<open>os.path.exists\<close>, \<^verbatim>\<open>sgtk.tank_from_path\<close>, and Python's own \<^verbatim>\<open>str\<close> and \<^verbatim>\<open>repr\<close>
  on the values that are formatted into messages. \<open>'obj\<close> is the type of the Python
  objects the hook only passes on (the publish data, the params, the field values).
\<close>

record 'obj env =
  get_publish_path :: "'obj \<Rightarrow> string"
  path_exists :: "string \<Rightarrow> bool"
  tank_from_path :: "string \<Rightarrow> 'obj tank"
  str_obj :: "'obj \<Rightarrow> string"
  repr_str :: "string \<Rightarrow> string"
  str_parameter_dict :: "'obj parameter_dict \<Rightarrow> string"

text \<open>A computation on the world that returns a value or raises.\<close>

type_synonym 'a io = "world \<Rightarrow> (error + 'a) \<times> world"

definition returns :: "'a \<Rightarrow> 'a io" where
  "returns x w = (Inr x, w)"

definition raise :: "error \<Rightarrow> 'a io" where
  "raise e w = (Inl e, w)"

text \<open>Sequencing: an exception of the first statement skips the rest.\<close>

definition then_do :: "'a io \<Rightarrow> ('a \<Rightarrow> 'b io) \<Rightarrow> 'b io" where
  "then_do m f w = (case m w of (Inl e, w') \<Rightarrow> (Inl e, w') | (Inr x, w') \<Rightarrow> f x w')"

text \<open>\<^verbatim>\<open>sep.join(xs)\<close>\<close>

fun join :: "string \<Rightarrow> string list \<Rightarrow> string" where
  "join sep [] = []"
| "join sep [x] = x"
| "join sep (x # y # ys) = x @ sep @ join sep (y # ys)"

text \<open>\<^verbatim>\<open>str\<close> of a list of strings: the \<^verbatim>\<open>repr\<close> of each element, comma separated, in
  brackets.\<close>

definition str_list :: "'obj env \<Rightarrow> string list \<Rightarrow> string" where
  "str_list env xs = ''['' @ join '', '' (map (repr_str env) xs) @ '']''"

text \<open>\<^verbatim>\<open>"%s" % params\<close>, where \<open>None\<close> stands for Python's \<^verbatim>\<open>None\<close>.\<close>

definition str_params :: "'obj env \<Rightarrow> 'obj option \<Rightarrow> string" where
  "str_params env params = (case params of None \<Rightarrow> ''None'' | Some p \<Rightarrow> str_obj env p)"

subsection \<open>The host: \<^verbatim>\<open>app.log_debug\<close> and \<^verbatim>\<open>NodegraphAPI\<close>\<close>

definition app_log_debug :: "string \<Rightarrow> unit io" where
  "app_log_debug msg w = (Inr (), w\<lparr>debug_log := debug_log w @ [msg]\<rparr>)"

fun is_CreateNode :: "api_call \<Rightarrow> bool" where
  "is_CreateNode (Call_CreateNode t p n) = True"
| "is_CreateNode c = False"

fun is_setValue :: "api_call \<Rightarrow> bool" where
  "is_setValue (Call_setValue p v t) = True"
| "is_setValue c = False"

definition GetRootNode :: "node io" where
  "GetRootNode w = (Inr RootNode, w\<lparr>api_calls := api_calls w @ [Call_GetRootNode]\<rparr>)"

text \<open>The host numbers the nodes it creates: the handle of a new node is the number of
  nodes created before it.\<close>

definition CreateNode :: "string \<Rightarrow> node \<Rightarrow> node io" where
  "CreateNode node_type parent w =
     (let node = Node (length (filter is_CreateNode (api_calls w)))
      in (Inr node, w\<lparr>api_calls := api_calls w @ [Call_CreateNode node_type parent node]\<rparr>))"

definition getParameter :: "node \<Rightarrow> string \<Rightarrow> parameter io" where
  "getParameter node name w =
     (Inr (Parameter node name), w\<lparr>api_calls := api_calls w @ [Call_getParameter node name]\<rparr>)"

definition setValue :: "parameter \<Rightarrow> string \<Rightarrow> nat \<Rightarrow> unit io" where
  "setValue parm val time w =
     (Inr (), w\<lparr>api_calls := api_calls w @ [Call_setValue parm val time]\<rparr>)"

subsection \<open>\<^verbatim>\<open>KatanaActions.generate_actions\<close>\<close>

text \<open>An action instance: a dictionary with the keys \<^verbatim>\<open>name\<close>, \<^verbatim>\<open>params\<close>, \<^verbatim>\<open>caption\<close> and
  \<^verbatim>\<open>description\<close>.\<close>

record 'obj action_instance =
  name :: string
  params :: "'obj option"
  caption :: string
  description :: string

definition open_project_instance :: "'obj action_instance" where
  "open_project_instance =
     \<lparr>name = ''open_project'', params = None, caption = ''Open Project'',
      description = ''This will open the Katana project file.''\<rparr>"

definition import_look_file_instance :: "'obj action_instance" where
  "import_look_file_instance =
     \<lparr>name = ''import_look_file'', params = None, caption = ''Import Look File'',
      description =
        ''This will create an LookFileAssign node corresponding to this published Look File.''\<rparr>"

definition create_node_Alembic_In_instance :: "'obj action_instance" where
  "create_node_Alembic_In_instance =
     \<lparr>name = ''create_node_Alembic_In'', params = None, caption = ''Import Alembic'',
      description = ''This will create an Alembic_In node corresponding to this cache.''\<rparr>"

definition create_node_ImageRead_instance :: "'obj action_instance" where
  "create_node_ImageRead_instance =
     \<lparr>name = ''create_node_ImageRead'', params = None, caption = ''Import image'',
      description = ''Creates an ImageRead node for the selected item.''\<rparr>"

definition generate_actions ::
  "'obj env \<Rightarrow> 'obj \<Rightarrow> string list \<Rightarrow> string \<Rightarrow> 'obj action_instance list io" where
  "generate_actions env sg_publish_data actions ui_area =
     then_do
       (app_log_debug
          (''Generate actions called for UI element '' @ ui_area @
           ''. Actions: '' @ str_list env actions @
           ''. Publish Data: '' @ str_obj env sg_publish_data))
       (\<lambda>_.
          let action_instances = [];
              action_instances =
                (if ''open_project'' \<in> set actions
                 then action_instances @ [open_project_instance] else action_instances);
              action_instances =
                (if ''import_look_file'' \<in> set actions
                 then action_instances @ [import_look_file_instance] else action_instances);
              action_instances =
                (if ''create_node_Alembic_In'' \<in> set actions
                 then action_instances @ [create_node_Alembic_In_instance]
                 else action_instances);
              action_instances =
                (if ''create_node_ImageRead'' \<in> set actions
                 then action_instances @ [create_node_ImageRead_instance]
                 else action_instances)
          in returns action_instances)"

text \<open>The four action names \<^verbatim>\<open>generate_actions\<close> tests for, in the order of its tests.\<close>

definition known_actions :: "string list" where
  "known_actions =
     [''open_project'', ''import_look_file'', ''create_node_Alembic_In'',
      ''create_node_ImageRead'']"

subsection \<open>\<^verbatim>\<open>KatanaActions.execute_action\<close> and its helpers\<close>

definition open_project :: "string \<Rightarrow> 'obj \<Rightarrow> pyval io" where
  "open_project path sg_publish_data = returns PyNone"

text \<open>The exception of \<^verbatim>\<open>template.get_fields\<close> when \<^verbatim>\<open>template\<close> is \<^verbatim>\<open>None\<close>.\<close>

definition no_get_fields :: error where
  "no_get_fields =
     AttributeError ([CHR 0x27] @ ''NoneType'' @ [CHR 0x27] @ '' object has no attribute '' @
                     [CHR 0x27] @ ''get_fields'' @ [CHR 0x27])"

text \<open>
  \<^verbatim>\<open>_create_node\<close>. The method does not test the template it gets from the toolkit: when
  no template matches the path, the call of \<^verbatim>\<open>get_fields\<close> on \<^verbatim>\<open>None\<close> raises, before any
  call into the node graph.
\<close>

definition create_node :: "'obj env \<Rightarrow> string \<Rightarrow> string \<Rightarrow> 'obj \<Rightarrow> string \<Rightarrow> pyval io" where
  "create_node env node_type path sg_publish_data asset_parameter =
     (if \<not> path_exists env path
      then raise (Exception (''File not found on disk - '' @ [CHR 0x27] @ path @ [CHR 0x27]))
      else
        let project_path = ''/mnt/netdev/sam.saxon/shotgun/Shotgun_Katana_Test/big_buck_bunny'';
            tk = tank_from_path env project_path
        in case template_from_path tk path of
             None \<Rightarrow> raise no_get_fields
           | Some template \<Rightarrow>
               let flds = get_fields template path;
                   flds = (if flds ''SEQ'' \<noteq> None then flds(''SEQ'' := None) else flds);
                   parameter_dict =
                     \<lparr>pd_template = template_name template, pd_fields = flds\<rparr>
               in then_do GetRootNode (\<lambda>root.
                  then_do (CreateNode node_type root) (\<lambda>node.
                  then_do (getParameter node asset_parameter) (\<lambda>parm.
                  then_do (setValue parm (str_parameter_dict env parameter_dict) 0) (\<lambda>_.
                  returns (NodeHandle node))))))"

text \<open>The four tests of \<^verbatim>\<open>execute_action\<close> are separate \<^verbatim>\<open>if\<close> statements, run one after
  the other; the values the helpers return are dropped, and the method ends without a
  \<^verbatim>\<open>return\<close> statement.\<close>

definition execute_action :: "'obj env \<Rightarrow> string \<Rightarrow> 'obj option \<Rightarrow> 'obj \<Rightarrow> pyval io" where
  "execute_action env nm prms sg_publish_data =
     then_do
       (app_log_debug
          (''Execute action called for action '' @ nm @
           ''. Parameters: '' @ str_params env prms @
           ''. Publish Data: '' @ str_obj env sg_publish_data))
       (\<lambda>_.
          let path = get_publish_path env sg_publish_data in
          then_do
            (if nm = ''open_project'' then open_project path sg_publish_data
             else returns PyNone) (\<lambda>_.
          then_do
            (if nm = ''import_look_file'' then open_project path sg_publish_data
             else returns PyNone) (\<lambda>_.
          then_do
            (if nm = ''create_node_Alembic_In''
             then create_node env ''Alembic_In'' path sg_publish_data ''abcAsset''
             else returns PyNone) (\<lambda>_.
          then_do
            (if nm = ''create_node_ImageRead''
             then create_node env ''ImageRead'' path sg_publish_data ''file''
             else returns PyNone) (\<lambda>_.
          returns PyNone)))))"

subsection \<open>\<^verbatim>\<open>KatanaEngine\<close>: settings, logging and command dispatch\<close>

text \<open>
  The state of the engine the modelled methods touch: the settings of its environment,
  the lines printed on standard output (oldest first), the attribute \<^verbatim>\<open>_callback_map\<close>,
  and the callbacks that have been called (oldest first). \<open>'cb\<close> is the type of the
  callables stored in the map.
\<close>

record 'cb engine =
  settings :: "string \<rightharpoonup> bool"
  stdout :: "string list"
  callback_map :: "string \<rightharpoonup> 'cb"
  called :: "'cb list"

text \<open>\<^verbatim>\<open>self.get_setting(key, default)\<close>\<close>

definition get_setting :: "'cb engine \<Rightarrow> string \<Rightarrow> bool \<Rightarrow> bool" where
  "get_setting e key dflt = (case settings e key of None \<Rightarrow> dflt | Some v \<Rightarrow> v)"

text \<open>The \<^verbatim>\<open>print\<close> statement: one more line on standard output.\<close>

definition print :: "string \<Rightarrow> 'cb engine \<Rightarrow> 'cb engine" where
  "print line e = e\<lparr>stdout := stdout e @ [line]\<rparr>"

definition log_debug :: "string \<Rightarrow> 'cb engine \<Rightarrow> 'cb engine" where
  "log_debug msg e =
     (if get_setting e ''debug_logging'' False then print (''Shotgun Debug: '' @ msg) e else e)"

definition log_info :: "string \<Rightarrow> 'cb engine \<Rightarrow> 'cb engine" where
  "log_info msg e = print (''Shotgun: '' @ msg) e"

definition display_message :: "string \<Rightarrow> 'cb engine \<Rightarrow> 'cb engine" where
  "display_message msg e = log_info msg e"

definition log_error :: "string \<Rightarrow> 'cb engine \<Rightarrow> 'cb engine" where
  "log_error msg e = print (''Shotgun Error: '' @ msg) (display_message msg e)"

definition log_warning :: "string \<Rightarrow> 'cb engine \<Rightarrow> 'cb engine" where
  "log_warning msg e = print msg e"

text \<open>
  \<^verbatim>\<open>launch_command\<close>. What calling a stored callable does is the parameter \<open>call\<close>: it
  may change the engine and may raise. The value a callback returns is dropped.
\<close>

definition launch_command ::
  "('cb \<Rightarrow> 'cb engine \<Rightarrow> (error + unit) \<times> 'cb engine) \<Rightarrow> string \<Rightarrow> 'cb engine
     \<Rightarrow> (error + unit) \<times> 'cb engine" where
  "launch_command call cmd_id e =
     (case callback_map e cmd_id of
        None \<Rightarrow> (Inr (), log_error (''No callback found for id: '' @ cmd_id) e)
      | Some callback \<Rightarrow> call callback (e\<lparr>called := called e @ [callback]\<rparr>))"

subsection \<open>\<^verbatim>\<open>KatanaEngine._define_qt_base\<close>\<close>

text \<open>
  The modules of PyQt4 as far as the method reads and patches them. \<open>'q\<close> is the type
  of the Qt classes and functions. The attributes \<^verbatim>\<open>Signal\<close>, \<^verbatim>\<open>Slot\<close> and \<^verbatim>\<open>Property\<close>
  are absent (\<open>None\<close>) until the method sets them.
\<close>

record 'q QtCore_module =
  pyqtSignal :: 'q
  pyqtSlot :: 'q
  pyqtProperty :: 'q
  PYQT_VERSION_STR :: string
  Signal :: "'q option"
  Slot :: "'q option"
  Property :: "'q option"

record 'q QtGui_module =
  QDialog :: 'q

text \<open>What the two \<^verbatim>\<open>import\<close> statements bind: \<^verbatim>\<open>QtCore\<close>, \<^verbatim>\<open>QtGui\<close> and \<^verbatim>\<open>PyQt4.__file__\<close>.\<close>

record 'q PyQt4 =
  QtCore :: "'q QtCore_module"
  QtGui :: "'q QtGui_module"
  pyqt4_file :: string

text \<open>An entry of the returned dictionary: an instance of the local class \<^verbatim>\<open>QTProxy\<close>, or
  a module.\<close>

datatype 'm qt_handle = QTProxy | Module 'm

record 'q qt_base =
  qt_core :: "'q QtCore_module qt_handle"
  qt_gui :: "'q QtGui_module qt_handle"
  dialog_base :: "'q option"

text \<open>\<^verbatim>\<open>QTProxy.__getattr__\<close>: every attribute lookup that reaches it raises.\<close>

definition QTProxy_getattr :: "string \<Rightarrow> error + 'v" where
  "QTProxy_getattr nm =
     Inl (TankError (''Looks like you are trying to run an App that uses a QT '' @
                     ''based UI, however the Katana engine could not find a PyQt '' @
                     ''installation!''))"

text \<open>\<^verbatim>\<open>"%s" % e\<close> for an exception: its message.\<close>

fun str_error :: "error \<Rightarrow> string" where
  "str_error (Exception m) = m"
| "str_error (TankError m) = m"
| "str_error (ImportError m) = m"
| "str_error (AttributeError m) = m"

text \<open>
  \<^verbatim>\<open>_define_qt_base\<close>. The outcome of the \<^verbatim>\<open>import\<close> statements is the parameter
  \<open>imported\<close>: the modules, an \<^verbatim>\<open>ImportError\<close> (the first \<^verbatim>\<open>except\<close> clause), or another
  exception (the second). \<open>format_exc\<close> is
  \<^verbatim>\<open>traceback.format_exc()\<close> in the handler of that exception.
\<close>

definition define_qt_base ::
  "(error \<Rightarrow> string) \<Rightarrow> error + 'q PyQt4 \<Rightarrow> 'cb engine \<Rightarrow> (error + 'q qt_base) \<times> 'cb engine"
  where
  "define_qt_base format_exc imported e =
     (let base = \<lparr>qt_core = QTProxy, qt_gui = QTProxy, dialog_base = None\<rparr> in
      case imported of
        Inr pyqt4 \<Rightarrow>
          let core = QtCore pyqt4;
              gui = QtGui pyqt4;
              core = core\<lparr>Signal := Some (pyqtSignal core)\<rparr>;
              core = core\<lparr>Slot := Some (pyqtSlot core)\<rparr>;
              core = core\<lparr>Property := Some (pyqtProperty core)\<rparr>;
              base = base\<lparr>qt_core := Module core\<rparr>;
              base = base\<lparr>qt_gui := Module gui\<rparr>;
              base = base\<lparr>dialog_base := Some (QDialog gui)\<rparr>;
              e = log_debug (''Successfully initialized PyQt '' @ [CHR 0x27] @
                             PYQT_VERSION_STR core @ [CHR 0x27] @ '' located in '' @
                             pyqt4_file pyqt4 @ ''.'') e
          in (Inr base, e)
      | Inl (ImportError m) \<Rightarrow> (Inr base, e)
      | Inl ex \<Rightarrow>
          let e = log_warning (''Error setting up PyQt. PyQt based UI support '' @
                               ''will not be available: '' @ str_error ex) e;
              e = log_debug (format_exc ex) e
          in (Inr base, e))"

subsection \<open>Auxiliary definitions for the statements\<close>

text \<open>The four action instances, in the order in which \<^verbatim>\<open>generate_actions\<close> appends them.\<close>

definition all_instances :: "'obj action_instance list" where
  "all_instances =
     [open_project_instance, import_look_file_instance, create_node_Alembic_In_instance,
      create_node_ImageRead_instance]"

text \<open>The two action names for which \<^verbatim>\<open>execute_action\<close> calls \<^verbatim>\<open>_create_node\<close>.\<close>

definition node_creation_actions :: "string list" where
  "node_creation_actions = [''create_node_Alembic_In'', ''create_node_ImageRead'']"

text \<open>The message \<^verbatim>\<open>execute_action\<close> passes to \<^verbatim>\<open>app.log_debug\<close>.\<close>

definition execute_message :: "'obj env \<Rightarrow> string \<Rightarrow> 'obj option \<Rightarrow> 'obj \<Rightarrow> string" where
  "execute_message env nm prms d =
     ''Execute action called for action '' @ nm @
     ''. Parameters: '' @ str_params env prms @
     ''. Publish Data: '' @ str_obj env d"

text \<open>The template \<^verbatim>\<open>_create_node\<close> resolves for a path, through the toolkit instance of
  the hardcoded project path; \<open>None\<close> when no template matches the path.\<close>

definition resolved_template :: "'obj env \<Rightarrow> string \<Rightarrow> 'obj sgtk_template option" where
  "resolved_template env path =
     template_from_path
       (tank_from_path env ''/mnt/netdev/sam.saxon/shotgun/Shotgun_Katana_Test/big_buck_bunny'')
       path"

subsection \<open>A concrete environment\<close>

text \<open>
  An environment in which the publish data is the path itself, one file exists on disk,
  every path resolves to one template whose fields include \<^verbatim>\<open>SEQ\<close>, and the serialised
  parameter dictionary shows whether it holds a \<^verbatim>\<open>SEQ\<close> field.
\<close>

definition example_path :: string where
  "example_path = ''/shots/bunny_010/cache.abc''"

definition example_template :: "string sgtk_template" where
  "example_template =
     \<lparr>template_name = ''shot_alembic_cache'',
      get_fields = (\<lambda>path. [''Shot'' \<mapsto> ''bunny_010'', ''SEQ'' \<mapsto> ''FORMAT: %d''])\<rparr>"

definition example_tank :: "string tank" where
  "example_tank = \<lparr>template_from_path = (\<lambda>path. Some example_template)\<rparr>"

definition example_env :: "string env" where
  "example_env =
     \<lparr>get_publish_path = (\<lambda>d. d),
      path_exists = (\<lambda>p. p = ''/shots/bunny_010/cache.abc''),
      tank_from_path = (\<lambda>p. example_tank),
      str_obj = (\<lambda>d. d),
      repr_str = (\<lambda>s. [CHR 0x27] @ s @ [CHR 0x27]),
      str_parameter_dict =
        (\<lambda>pd. pd_template pd @ (if pd_fields pd ''SEQ'' = None then ''-'' else ''+SEQ''))\<rparr>"

text \<open>The same environment, with a toolkit in which no template matches any path.\<close>

definition example_env_no_template :: "string env" where
  "example_env_no_template =
     example_env\<lparr>tank_from_path := (\<lambda>p. \<lparr>template_from_path = (\<lambda>path. None)\<rparr>)\<rparr>"

definition empty_world :: world where
  "empty_world = \<lparr>debug_log = [], api_calls = []\<rparr>"

text \<open>An engine with no setting configured, nothing printed, and one registered command.\<close>

definition example_engine :: "nat engine" where
  "example_engine =
     \<lparr>settings = Map.empty, stdout = [], callback_map = [''cmd_1'' \<mapsto> 0], called = []\<rparr>"

text \<open>The PyQt4 modules as an import binds them, before \<^verbatim>\<open>_define_qt_base\<close> patches them.\<close>

definition example_pyqt4 :: "string PyQt4" where
  "example_pyqt4 =
     \<lparr>QtCore = \<lparr>pyqtSignal = ''pyqtSignal'', pyqtSlot = ''pyqtSlot'',
                pyqtProperty = ''pyqtProperty'', PYQT_VERSION_STR = ''4.10.4'',
                Signal = None, Slot = None, Property = None\<rparr>,
      QtGui = \<lparr>QDialog = ''QDialog''\<rparr>,
      pyqt4_file = ''/opt/katana/bin/python/PyQt4/__init__.pyc''\<rparr>"

section \<open>Properties\<close>

lemmas instance_defs =
  open_project_instance_def import_look_file_instance_def
  create_node_Alembic_In_instance_def create_node_ImageRead_instance_def

lemmas example_defs =
  example_env_def example_tank_def example_template_def empty_world_def example_path_def

lemmas log_defs =
  log_debug_def log_info_def log_error_def log_warning_def display_message_def print_def
  get_setting_def

subsection \<open>What \<^verbatim>\<open>generate_actions\<close> returns\<close>

lemma map_name_all_instances: "map name all_instances = known_actions"
  by (simp add: all_instances_def known_actions_def instance_defs)

text \<open>The method logs one message and returns the instances whose name is in the list.\<close>

lemma generate_actions_eq:
  "generate_actions env d actions ui w =
     (Inr (filter (\<lambda>a. name a \<in> set actions) all_instances),
      w\<lparr>debug_log := debug_log w @
         [''Generate actions called for UI element '' @ ui @
           ''. Actions: '' @ str_list env actions @
           ''. Publish Data: '' @ str_obj env d]\<rparr>)"
  by (simp add: generate_actions_def then_do_def app_log_debug_def returns_def all_instances_def
      instance_defs)

lemma filter_name_cong:
  assumes "set xs \<inter> set known_actions = set ys \<inter> set known_actions"
  shows "filter (\<lambda>a. name a \<in> set xs) all_instances =
         filter (\<lambda>a. name a \<in> set ys) (all_instances :: 'obj action_instance list)"
proof (rule filter_cong[OF refl])
  fix a :: "'obj action_instance" assume "a \<in> set all_instances"
  then have "name a \<in> set known_actions"
    by (auto simp add: all_instances_def known_actions_def instance_defs)
  with assms show "(name a \<in> set xs) = (name a \<in> set ys)" by blast
qed

text \<open>
  Claim C1. For every list of action names and every publish data, \<^verbatim>\<open>generate_actions\<close>
  returns (it does not raise), and for each of the four known names that occurs in the list
  the result holds exactly one instance with that name, whose caption and description are
  not empty. A name that is not one of the four, or that does not occur in the list, has
  no instance in the result.
\<close>

theorem generate_actions_known_names:
  "\<exists>res. fst (generate_actions env d actions ui w) = Inr res \<and>
     (\<forall>n. (n \<in> set known_actions \<and> n \<in> set actions \<longrightarrow>
            (\<exists>a. filter (\<lambda>x. name x = n) res = [a] \<and> name a = n \<and>
                 caption a \<noteq> [] \<and> description a \<noteq> [])) \<and>
          (n \<notin> set known_actions \<or> n \<notin> set actions \<longrightarrow>
            filter (\<lambda>x. name x = n) res = []))"
  apply (simp add: generate_actions_eq)
  apply (simp add: all_instances_def known_actions_def instance_defs)
  by auto

theorem generate_actions_known_names_witness:
  "''create_node_ImageRead'' \<in> set known_actions \<and>
   ''render'' \<notin> set known_actions \<and>
   (\<exists>res. fst (generate_actions example_env ''/shots/bunny_010/cache.abc''
              [''render'', ''create_node_ImageRead'', ''create_node_ImageRead'']
              ''main'' empty_world) = Inr res \<and>
      filter (\<lambda>x. name x = ''create_node_ImageRead'') res = [create_node_ImageRead_instance] \<and>
      filter (\<lambda>x. name x = ''render'') res = [])"
  using generate_actions_known_names[of example_env "''/shots/bunny_010/cache.abc''"
      "[''render'', ''create_node_ImageRead'', ''create_node_ImageRead'']" "''main''" empty_world]
  by (simp add: generate_actions_eq all_instances_def known_actions_def instance_defs)

text \<open>
  Claim C9. The list \<^verbatim>\<open>generate_actions\<close> returns depends only on which of the four known
  names are members of the input list: two lists with the same known members give the same
  result, whatever their order and repetitions (and whatever the publish data, the UI area
  and the environment). The result is a subsequence of the four instances in their fixed
  order, holds each name at most once, and has at most four elements.
\<close>

theorem generate_actions_membership_only:
  assumes "set xs \<inter> set known_actions = set ys \<inter> set known_actions"
  shows "\<exists>res. fst (generate_actions env d xs ui w) = Inr res \<and>
           fst (generate_actions env' d' ys ui' w') = Inr res \<and>
           subseq res all_instances \<and>
           subseq (map name res) known_actions \<and>
           distinct (map name res) \<and>
           length res \<le> 4"
proof -
  let ?res = "filter (\<lambda>a. name a \<in> set xs) (all_instances :: 'a action_instance list)"
  have sub: "subseq ?res all_instances" by simp
  have "subseq (map name ?res) (map name (all_instances :: 'a action_instance list))"
    using sub by (rule subseq_map)
  then have subn: "subseq (map name ?res) known_actions"
    by (simp only: map_name_all_instances)
  have dist: "distinct (map name ?res)"
    by (rule distinct_map_filter) (simp add: map_name_all_instances known_actions_def)
  have "length ?res \<le> length (all_instances :: 'a action_instance list)"
    by (rule length_filter_le)
  then have len: "length ?res \<le> 4" by (simp add: all_instances_def)
  have "fst (generate_actions env' d' ys ui' w') = Inr ?res"
    by (simp add: generate_actions_eq filter_name_cong[OF assms])
  with sub subn dist len show ?thesis
    by (intro exI[of _ ?res]) (simp add: generate_actions_eq)
qed

theorem generate_actions_membership_only_witness:
  "fst (generate_actions example_env ''a''
          [''create_node_ImageRead'', ''render'', ''open_project'', ''open_project'']
          ''main'' empty_world)
   = Inr [open_project_instance, create_node_ImageRead_instance] \<and>
   fst (generate_actions example_env ''b'' [''open_project'', ''create_node_ImageRead'']
          ''details'' empty_world)
   = Inr [open_project_instance, create_node_ImageRead_instance]"
proof -
  have h: "set [''create_node_ImageRead'', ''render'', ''open_project'', ''open_project'']
             \<inter> set known_actions
           = set [''open_project'', ''create_node_ImageRead''] \<inter> set known_actions"
    by (auto simp add: known_actions_def)
  from generate_actions_membership_only[OF h, of example_env "''a''" "''main''" empty_world
      example_env "''b''" "''details''" empty_world]
  show ?thesis
    by (simp add: generate_actions_eq all_instances_def instance_defs)
qed

subsection \<open>What \<^verbatim>\<open>_create_node\<close> and \<^verbatim>\<open>execute_action\<close> do\<close>

text \<open>With the file on disk and a template that matches the path, \<^verbatim>\<open>_create_node\<close> makes
  four calls into the node graph and returns the new node.\<close>

lemma create_node_exists:
  assumes "path_exists env path" and "resolved_template env path = Some T"
  shows "create_node env t path d k w =
     (Inr (NodeHandle (Node (length (filter is_CreateNode (api_calls w))))),
      w\<lparr>api_calls := api_calls w @
         [Call_GetRootNode,
          Call_CreateNode t RootNode (Node (length (filter is_CreateNode (api_calls w)))),
          Call_getParameter (Node (length (filter is_CreateNode (api_calls w)))) k,
          Call_setValue (Parameter (Node (length (filter is_CreateNode (api_calls w)))) k)
            (str_parameter_dict env
               \<lparr>pd_template = template_name T,
                pd_fields = (get_fields T path)(''SEQ'' := None)\<rparr>)
            0]\<rparr>)"
proof -
  have f: "(if m ''SEQ'' \<noteq> None then m(''SEQ'' := None) else m) = m(''SEQ'' := None)"
    for m :: "string \<rightharpoonup> 'a"
    by auto
  have T: "template_from_path
             (tank_from_path env
                ''/mnt/netdev/sam.saxon/shotgun/Shotgun_Katana_Test/big_buck_bunny'') path =
           Some T"
    using assms(2) by (simp add: resolved_template_def)
  show ?thesis
    unfolding create_node_def Let_def f T
    using assms(1)
    by (simp add: then_do_def GetRootNode_def CreateNode_def getParameter_def
        setValue_def returns_def Let_def del: fun_upd_apply)
qed

text \<open>With the file on disk and no matching template, \<^verbatim>\<open>_create_node\<close> raises on
  \<^verbatim>\<open>template.get_fields\<close> and leaves the world as it was.\<close>

lemma create_node_no_template:
  assumes "path_exists env path" and "resolved_template env path = None"
  shows "create_node env t path d k w = (Inl no_get_fields, w)"
proof -
  have T: "template_from_path
             (tank_from_path env
                ''/mnt/netdev/sam.saxon/shotgun/Shotgun_Katana_Test/big_buck_bunny'') path =
           None"
    using assms(2) by (simp add: resolved_template_def)
  show ?thesis
    unfolding create_node_def Let_def T
    using assms(1) by (simp add: raise_def)
qed

text \<open>Without it, \<^verbatim>\<open>_create_node\<close> raises and leaves the world as it was.\<close>

lemma create_node_missing:
  assumes "\<not> path_exists env path"
  shows "create_node env t path d k w =
     (Inl (Exception (''File not found on disk - '' @ [CHR 0x27] @ path @ [CHR 0x27])), w)"
  using assms by (simp add: create_node_def raise_def)

lemma execute_action_Alembic_In:
  "execute_action env ''create_node_Alembic_In'' p d w =
     (case create_node env ''Alembic_In'' (get_publish_path env d) d ''abcAsset''
             (w\<lparr>debug_log := debug_log w @
                   [execute_message env ''create_node_Alembic_In'' p d]\<rparr>) of
        (Inl e, w') \<Rightarrow> (Inl e, w')
      | (Inr v, w') \<Rightarrow> (Inr PyNone, w'))"
  by (simp add: execute_action_def then_do_def app_log_debug_def returns_def execute_message_def
      Let_def split: prod.splits sum.splits)

lemma execute_action_ImageRead:
  "execute_action env ''create_node_ImageRead'' p d w =
     (case create_node env ''ImageRead'' (get_publish_path env d) d ''file''
             (w\<lparr>debug_log := debug_log w @
                   [execute_message env ''create_node_ImageRead'' p d]\<rparr>) of
        (Inl e, w') \<Rightarrow> (Inl e, w')
      | (Inr v, w') \<Rightarrow> (Inr PyNone, w'))"
  by (simp add: execute_action_def then_do_def app_log_debug_def returns_def execute_message_def
      Let_def split: prod.splits sum.splits)

lemma execute_action_other:
  assumes "nm \<noteq> ''create_node_Alembic_In''" "nm \<noteq> ''create_node_ImageRead''"
  shows "execute_action env nm p d w =
     (Inr PyNone, w\<lparr>debug_log := debug_log w @ [execute_message env nm p d]\<rparr>)"
  using assms
  by (simp add: execute_action_def then_do_def app_log_debug_def returns_def execute_message_def
      open_project_def Let_def)

text \<open>
  Claim C2 as stated, for every action name, does not hold: for the action name
  \<^verbatim>\<open>open_project\<close> and a publish path that is not on disk, \<^verbatim>\<open>execute_action\<close> returns
  \<^verbatim>\<open>None\<close> without raising. Only \<^verbatim>\<open>_create_node\<close> tests the path.
\<close>

theorem execute_action_missing_path_counterexample:
  "\<not> path_exists example_env (get_publish_path example_env ''/missing.abc'') \<and>
   fst (execute_action example_env ''open_project'' None ''/missing.abc'' empty_world) =
     Inr PyNone"
  by (simp add: execute_action_other example_defs)

text \<open>
  Claim C2, amended. For every publish data whose resolved path does not exist on disk:
  for the two node-creation action names \<^verbatim>\<open>execute_action\<close> raises the generic exception
  \<^verbatim>\<open>File not found on disk - '<path>'\<close>, for every other action name it returns \<^verbatim>\<open>None\<close>;
  in both cases no call into the node graph is made.
\<close>

theorem execute_action_missing_path:
  assumes "\<not> path_exists env (get_publish_path env d)"
  shows "fst (execute_action env nm p d w) =
           (if nm \<in> set node_creation_actions
            then Inl (Exception (''File not found on disk - '' @ [CHR 0x27] @
                                 get_publish_path env d @ [CHR 0x27]))
            else Inr PyNone) \<and>
         api_calls (snd (execute_action env nm p d w)) = api_calls w"
proof -
  consider "nm = ''create_node_Alembic_In''" | "nm = ''create_node_ImageRead''"
    | "nm \<noteq> ''create_node_Alembic_In''" "nm \<noteq> ''create_node_ImageRead''"
    by blast
  then show ?thesis
  proof cases
    case 1
    then show ?thesis
      by (simp add: execute_action_Alembic_In create_node_missing[OF assms]
          node_creation_actions_def)
  next
    case 2
    then show ?thesis
      by (simp add: execute_action_ImageRead create_node_missing[OF assms]
          node_creation_actions_def)
  next
    case 3
    then show ?thesis
      by (simp add: execute_action_other node_creation_actions_def)
  qed
qed

theorem execute_action_missing_path_witness:
  "\<not> path_exists example_env (get_publish_path example_env ''/missing.abc'') \<and>
   fst (execute_action example_env ''create_node_Alembic_In'' None ''/missing.abc''
          empty_world) =
     Inl (Exception (''File not found on disk - '' @ [CHR 0x27] @ ''/missing.abc'' @
                     [CHR 0x27])) \<and>
   api_calls (snd (execute_action example_env ''create_node_Alembic_In'' None ''/missing.abc''
                     empty_world)) = []"
proof -
  have h: "\<not> path_exists example_env (get_publish_path example_env ''/missing.abc'')"
    by (simp add: example_defs)
  from execute_action_missing_path[OF h, of "''create_node_Alembic_In''" None empty_world] h
  show ?thesis
    by (simp add: node_creation_actions_def example_defs)
qed

text \<open>
  Claim C3 as stated, for every publish data with an existing resolved path, does not hold:
  \<^verbatim>\<open>_create_node\<close> calls \<^verbatim>\<open>get_fields\<close> on whatever \<^verbatim>\<open>template_from_path\<close> returns. For
  a path that is on disk and matches no template of the toolkit, \<^verbatim>\<open>execute_action\<close> raises
  an \<^verbatim>\<open>AttributeError\<close> and makes no call into the node graph.
\<close>

theorem execute_action_create_node_calls_counterexample:
  "path_exists example_env_no_template
     (get_publish_path example_env_no_template example_path) \<and>
   fst (execute_action example_env_no_template ''create_node_Alembic_In'' None example_path
          empty_world) = Inl no_get_fields \<and>
   api_calls (snd (execute_action example_env_no_template ''create_node_Alembic_In'' None
                     example_path empty_world)) = []"
proof -
  have h: "path_exists example_env_no_template
             (get_publish_path example_env_no_template example_path)"
    by (simp add: example_env_no_template_def example_defs)
  have n: "resolved_template example_env_no_template
             (get_publish_path example_env_no_template example_path) = None"
    by (simp add: resolved_template_def example_env_no_template_def example_defs)
  show ?thesis
    by (simp add: execute_action_Alembic_In create_node_no_template[OF h n] h)
       (simp add: empty_world_def)
qed

text \<open>
  Claim C3, amended. For every publish data whose resolved path exists and matches a
  template of the toolkit, \<^verbatim>\<open>execute_action\<close> with the name \<^verbatim>\<open>create_node_Alembic_In\<close>
  makes exactly four calls into the node graph: it gets the root node, creates one node of
  type \<^verbatim>\<open>Alembic_In\<close> under it, gets that node's parameter \<^verbatim>\<open>abcAsset\<close> and sets its value
  at time 0. With the name \<^verbatim>\<open>create_node_ImageRead\<close> the node type is \<^verbatim>\<open>ImageRead\<close> and
  the parameter is \<^verbatim>\<open>file\<close>. In both cases the number of node creations grows by one.
\<close>

theorem execute_action_create_node_calls:
  assumes "path_exists env (get_publish_path env d)"
    and "resolved_template env (get_publish_path env d) = Some T"
  shows "(\<exists>n v. api_calls (snd (execute_action env ''create_node_Alembic_In'' p d w)) =
                 api_calls w @
                 [Call_GetRootNode, Call_CreateNode ''Alembic_In'' RootNode n,
                  Call_getParameter n ''abcAsset'',
                  Call_setValue (Parameter n ''abcAsset'') v 0]) \<and>
         length (filter is_CreateNode
                   (api_calls (snd (execute_action env ''create_node_Alembic_In'' p d w)))) =
           Suc (length (filter is_CreateNode (api_calls w))) \<and>
         (\<exists>n v. api_calls (snd (execute_action env ''create_node_ImageRead'' p d w)) =
                 api_calls w @
                 [Call_GetRootNode, Call_CreateNode ''ImageRead'' RootNode n,
                  Call_getParameter n ''file'',
                  Call_setValue (Parameter n ''file'') v 0]) \<and>
         length (filter is_CreateNode
                   (api_calls (snd (execute_action env ''create_node_ImageRead'' p d w)))) =
           Suc (length (filter is_CreateNode (api_calls w)))"
  by (simp add: execute_action_Alembic_In execute_action_ImageRead
      create_node_exists[OF assms])

theorem execute_action_create_node_calls_witness:
  "path_exists example_env (get_publish_path example_env example_path) \<and>
   resolved_template example_env (get_publish_path example_env example_path) =
     Some example_template \<and>
   api_calls (snd (execute_action example_env ''create_node_Alembic_In'' None example_path
                     empty_world)) =
     [Call_GetRootNode, Call_CreateNode ''Alembic_In'' RootNode (Node 0),
      Call_getParameter (Node 0) ''abcAsset'',
      Call_setValue (Parameter (Node 0) ''abcAsset'') ''shot_alembic_cache-'' 0] \<and>
   api_calls (snd (execute_action example_env ''create_node_ImageRead'' None example_path
                     empty_world)) =
     [Call_GetRootNode, Call_CreateNode ''ImageRead'' RootNode (Node 0),
      Call_getParameter (Node 0) ''file'',
      Call_setValue (Parameter (Node 0) ''file'') ''shot_alembic_cache-'' 0]"
proof -
  have h: "path_exists example_env (get_publish_path example_env example_path)"
    by (simp add: example_defs)
  have r: "resolved_template example_env (get_publish_path example_env example_path) =
             Some example_template"
    by (simp add: resolved_template_def example_env_def example_tank_def)
  from execute_action_create_node_calls[OF h r, of None empty_world] h r
  show ?thesis
    by (simp add: execute_action_Alembic_In execute_action_ImageRead
        create_node_exists[OF h r])
       (simp add: example_defs)
qed

text \<open>
  Claim C4. Whatever the toolkit resolves for the path, the only value \<^verbatim>\<open>_create_node\<close>
  can write into a parameter is the serialisation of a dictionary whose \<^verbatim>\<open>fields\<close> entry
  has no \<^verbatim>\<open>SEQ\<close> key and agrees with the resolved fields on every other key. It writes
  that value once when the path is on disk and a template matches it, and nothing
  otherwise. The serialisation itself is Python's \<^verbatim>\<open>str\<close>, a parameter of the model, so
  the statement is about the dictionary that is serialised.
\<close>

theorem create_node_drops_SEQ:
  "\<exists>flds. flds ''SEQ'' = None \<and>
     (\<forall>T f. resolved_template env path = Some T \<and> f \<noteq> ''SEQ'' \<longrightarrow>
            flds f = get_fields T path f) \<and>
     filter is_setValue (api_calls (snd (create_node env t path d k w))) =
       filter is_setValue (api_calls w) @
       (case resolved_template env path of
          None \<Rightarrow> []
        | Some T \<Rightarrow>
            if path_exists env path
            then [Call_setValue
                    (Parameter (Node (length (filter is_CreateNode (api_calls w)))) k)
                    (str_parameter_dict env
                       \<lparr>pd_template = template_name T, pd_fields = flds\<rparr>) 0]
            else [])"
proof (cases "resolved_template env path")
  case None
  have "filter is_setValue (api_calls (snd (create_node env t path d k w))) =
        filter is_setValue (api_calls w)"
    by (cases "path_exists env path")
      (simp_all add: create_node_no_template[OF _ None] create_node_missing)
  with None show ?thesis
    by (intro exI[of _ "Map.empty"]) simp
next
  case (Some T)
  have "filter is_setValue (api_calls (snd (create_node env t path d k w))) =
        filter is_setValue (api_calls w) @
        (if path_exists env path
         then [Call_setValue
                 (Parameter (Node (length (filter is_CreateNode (api_calls w)))) k)
                 (str_parameter_dict env
                    \<lparr>pd_template = template_name T,
                     pd_fields = (get_fields T path)(''SEQ'' := None)\<rparr>) 0]
         else [])"
    by (cases "path_exists env path")
      (simp_all add: create_node_exists[OF _ Some] create_node_missing)
  with Some show ?thesis
    by (intro exI[of _ "(get_fields T path)(''SEQ'' := None)"]) simp
qed

theorem create_node_drops_SEQ_witness:
  "path_exists example_env example_path \<and>
   resolved_template example_env example_path = Some example_template \<and>
   get_fields example_template example_path ''SEQ'' = Some ''FORMAT: %d'' \<and>
   filter is_setValue
     (api_calls (snd (create_node example_env ''Alembic_In'' example_path example_path
                        ''abcAsset'' empty_world))) =
     [Call_setValue (Parameter (Node 0) ''abcAsset'') ''shot_alembic_cache-'' 0]"
proof -
  have h: "path_exists example_env example_path"
    by (simp add: example_defs)
  have r: "resolved_template example_env example_path = Some example_template"
    by (simp add: resolved_template_def example_env_def example_tank_def)
  from create_node_drops_SEQ[of example_env example_path "''Alembic_In''" example_path
      "''abcAsset''" empty_world] h r
  show ?thesis
    by (simp add: create_node_exists[OF h r]) (simp add: example_defs)
qed

text \<open>
  Claim C5 as stated does not hold: \<^verbatim>\<open>execute_action\<close> has no \<^verbatim>\<open>return\<close> statement and
  drops what \<^verbatim>\<open>_create_node\<close> returns. With an existing path that matches a template and
  the name \<^verbatim>\<open>create_node_ImageRead\<close> it creates the node \<open>Node 0\<close> and returns \<^verbatim>\<open>None\<close>,
  not the handle of that node.
\<close>

theorem execute_action_returns_handle_counterexample:
  "path_exists example_env (get_publish_path example_env example_path) \<and>
   filter is_CreateNode
     (api_calls (snd (execute_action example_env ''create_node_ImageRead'' None example_path
                        empty_world))) =
     [Call_CreateNode ''ImageRead'' RootNode (Node 0)] \<and>
   fst (execute_action example_env ''create_node_ImageRead'' None example_path empty_world) =
     Inr PyNone \<and>
   fst (execute_action example_env ''create_node_ImageRead'' None example_path empty_world) \<noteq>
     Inr (NodeHandle (Node 0))"
proof -
  have h: "path_exists example_env (get_publish_path example_env example_path)"
    by (simp add: example_defs)
  have r: "resolved_template example_env (get_publish_path example_env example_path) =
             Some example_template"
    by (simp add: resolved_template_def example_env_def example_tank_def)
  show ?thesis
    by (simp add: execute_action_ImageRead create_node_exists[OF h r] h)
       (simp add: example_defs)
qed

text \<open>
  Claim C5, amended. For every publish data whose resolved path exists and matches a
  template of the toolkit, the helper \<^verbatim>\<open>_create_node\<close> returns the handle of the node it
  created and configured (the node of its creation call, whose parameter it set);
  \<^verbatim>\<open>execute_action\<close>, for both node-creation action names, returns \<^verbatim>\<open>None\<close>.
\<close>

theorem create_node_returns_handle:
  assumes "path_exists env (get_publish_path env d)"
    and "resolved_template env (get_publish_path env d) = Some T"
  shows "fst (execute_action env ''create_node_Alembic_In'' p d w) = Inr PyNone \<and>
         fst (execute_action env ''create_node_ImageRead'' p d w) = Inr PyNone \<and>
         (\<exists>n v. fst (create_node env t (get_publish_path env d) d k w) = Inr (NodeHandle n) \<and>
                api_calls (snd (create_node env t (get_publish_path env d) d k w)) =
                  api_calls w @
                  [Call_GetRootNode, Call_CreateNode t RootNode n, Call_getParameter n k,
                   Call_setValue (Parameter n k) v 0])"
  by (simp add: execute_action_Alembic_In execute_action_ImageRead
      create_node_exists[OF assms])

theorem create_node_returns_handle_witness:
  "path_exists example_env (get_publish_path example_env example_path) \<and>
   resolved_template example_env (get_publish_path example_env example_path) =
     Some example_template \<and>
   fst (execute_action example_env ''create_node_Alembic_In'' None example_path empty_world) =
     Inr PyNone \<and>
   fst (create_node example_env ''Alembic_In'' (get_publish_path example_env example_path)
          example_path ''abcAsset'' empty_world) =
     Inr (NodeHandle (Node 0))"
proof -
  have h: "path_exists example_env (get_publish_path example_env example_path)"
    by (simp add: example_defs)
  have r: "resolved_template example_env (get_publish_path example_env example_path) =
             Some example_template"
    by (simp add: resolved_template_def example_env_def example_tank_def)
  from create_node_returns_handle[OF h r, of None empty_world "''Alembic_In''" "''abcAsset''"]
    h r
  show ?thesis
    by (simp add: create_node_exists[OF h r]) (simp add: empty_world_def)
qed

text \<open>
  Claim C10. For every publish data, \<^verbatim>\<open>execute_action\<close> with the name
  \<^verbatim>\<open>import_look_file\<close> logs its debug message, calls the stub \<^verbatim>\<open>_open_project\<close> and returns
  \<^verbatim>\<open>None\<close>; it makes no call into the node graph. Yet the instance \<^verbatim>\<open>generate_actions\<close>
  returns for that name, whenever the name is in its input list, describes the creation of
  a LookFileAssign node.
\<close>

theorem execute_action_import_look_file_noop:
  "execute_action env ''import_look_file'' p d w =
     then_do (app_log_debug (execute_message env ''import_look_file'' p d))
       (\<lambda>_. open_project (get_publish_path env d) d) w \<and>
   fst (execute_action env ''import_look_file'' p d w) = Inr PyNone \<and>
   api_calls (snd (execute_action env ''import_look_file'' p d w)) = api_calls w \<and>
   (\<exists>res. fst (generate_actions env d actions ui w) = Inr res \<and>
      (''import_look_file'' \<in> set actions \<longrightarrow>
         map description (filter (\<lambda>a. name a = ''import_look_file'') res) =
           [''This will create an LookFileAssign node corresponding to this '' @
            ''published Look File.'']))"
  by (simp add: execute_action_other then_do_def app_log_debug_def open_project_def returns_def
      generate_actions_eq all_instances_def instance_defs)

theorem execute_action_import_look_file_noop_witness:
  "execute_action example_env ''import_look_file'' None example_path empty_world =
     (Inr PyNone,
      \<lparr>debug_log = [''Execute action called for action import_look_file. '' @
                     ''Parameters: None. Publish Data: /shots/bunny_010/cache.abc''],
       api_calls = []\<rparr>) \<and>
   ''import_look_file'' \<in> set [''open_project'', ''import_look_file''] \<and>
   fst (generate_actions example_env example_path [''open_project'', ''import_look_file'']
          ''main'' empty_world) =
     Inr [open_project_instance, import_look_file_instance]"
  using execute_action_import_look_file_noop[of example_env None example_path empty_world
      "[''open_project'', ''import_look_file'']" "''main''"]
  by (simp add: then_do_def app_log_debug_def open_project_def returns_def execute_message_def
      str_params_def example_defs generate_actions_eq all_instances_def instance_defs)

subsection \<open>The engine: logging, command dispatch and the Qt probe\<close>

text \<open>
  Claim C6 as stated does not hold: only \<^verbatim>\<open>log_debug\<close> reads the \<^verbatim>\<open>debug_logging\<close>
  setting. With the setting off (here: not configured, so the default \<^verbatim>\<open>False\<close>),
  \<^verbatim>\<open>log_info\<close>, \<^verbatim>\<open>log_error\<close> and \<^verbatim>\<open>log_warning\<close> still print, and \<^verbatim>\<open>log_warning\<close> prints
  the message with none of the prefixes.
\<close>

theorem logging_gated_counterexample:
  "\<not> get_setting example_engine ''debug_logging'' False \<and>
   stdout example_engine = [] \<and>
   stdout (log_info ''hello'' example_engine) = [''Shotgun: hello''] \<and>
   stdout (log_error ''hello'' example_engine) =
     [''Shotgun: hello'', ''Shotgun Error: hello''] \<and>
   stdout (log_warning ''hello'' example_engine) = [''hello'']"
  by (simp add: log_defs example_engine_def)

text \<open>
  Claim C6, amended. \<^verbatim>\<open>log_debug\<close> prints \<^verbatim>\<open>Shotgun Debug: <msg>\<close> when the setting
  \<^verbatim>\<open>debug_logging\<close> (default \<^verbatim>\<open>False\<close>) is on, and nothing otherwise. The other three
  methods print whatever the setting: \<^verbatim>\<open>log_info\<close> prints \<^verbatim>\<open>Shotgun: <msg>\<close>; \<^verbatim>\<open>log_error\<close>
  prints \<^verbatim>\<open>Shotgun: <msg>\<close> (through \<^verbatim>\<open>_display_message\<close>) and then
  \<^verbatim>\<open>Shotgun Error: <msg>\<close>; \<^verbatim>\<open>log_warning\<close> prints the message without a prefix.
\<close>

theorem logging_methods_print:
  "stdout (log_debug msg e) =
     (if get_setting e ''debug_logging'' False then stdout e @ [''Shotgun Debug: '' @ msg]
      else stdout e) \<and>
   stdout (log_info msg e) = stdout e @ [''Shotgun: '' @ msg] \<and>
   stdout (log_error msg e) = stdout e @ [''Shotgun: '' @ msg, ''Shotgun Error: '' @ msg] \<and>
   stdout (log_warning msg e) = stdout e @ [msg]"
  by (simp add: log_defs)

theorem logging_methods_print_witness:
  "stdout (log_debug ''hello'' example_engine) = [] \<and>
   stdout (log_debug ''hello'' (example_engine\<lparr>settings := [''debug_logging'' \<mapsto> True]\<rparr>)) =
     [''Shotgun Debug: hello'']"
  using logging_methods_print[of "''hello''" example_engine]
    logging_methods_print[of "''hello''"
      "example_engine\<lparr>settings := [''debug_logging'' \<mapsto> True]\<rparr>"]
  by (simp add: get_setting_def example_engine_def)

text \<open>
  Claim C7. For every command id with no callback in the callback map, \<^verbatim>\<open>launch_command\<close>
  returns normally (it does not raise), whatever calling a callback would do; it calls no
  callback, and its only effect is the error message, printed by \<^verbatim>\<open>log_error\<close>.
\<close>

theorem launch_command_missing_callback:
  assumes "callback_map e cmd_id = None"
  shows "launch_command call cmd_id e =
           (Inr (), e\<lparr>stdout := stdout e @
                        [''Shotgun: No callback found for id: '' @ cmd_id,
                         ''Shotgun Error: No callback found for id: '' @ cmd_id]\<rparr>) \<and>
         called (snd (launch_command call cmd_id e)) = called e"
  using assms by (simp add: launch_command_def log_defs)

theorem launch_command_missing_callback_witness:
  "callback_map example_engine ''cmd_2'' = None \<and>
   launch_command (\<lambda>cb en. (Inl (Exception ''callback failed''), en)) ''cmd_2''
       example_engine =
     (Inr (), example_engine\<lparr>stdout := [''Shotgun: No callback found for id: cmd_2'',
                                         ''Shotgun Error: No callback found for id: cmd_2'']\<rparr>)"
proof -
  have h: "callback_map example_engine ''cmd_2'' = None"
    by (simp add: example_engine_def)
  from launch_command_missing_callback[OF h,
      of "\<lambda>cb en. (Inl (Exception ''callback failed''), en)"] h
  show ?thesis by (simp add: example_engine_def)
qed

text \<open>
  Claim C8. \<^verbatim>\<open>_define_qt_base\<close> returns a dictionary and never raises, whatever the
  \<^verbatim>\<open>import\<close> of PyQt4 does. When the import succeeds, the entries are the (patched)
  \<^verbatim>\<open>QtCore\<close> module, the \<^verbatim>\<open>QtGui\<close> module and the class \<^verbatim>\<open>QtGui.QDialog\<close>. When it raises,
  \<^verbatim>\<open>qt_core\<close> and \<^verbatim>\<open>qt_gui\<close> are \<^verbatim>\<open>QTProxy\<close> objects (and \<^verbatim>\<open>dialog_base\<close> is \<^verbatim>\<open>None\<close>); the
  failure is deferred: \<^verbatim>\<open>QTProxy.__getattr__\<close> raises the toolkit error, with its message,
  for whatever attribute is looked up.
\<close>

theorem define_qt_base_never_raises:
  "(\<exists>base e'. define_qt_base format_exc imported e = (Inr base, e')) \<and>
   fst (define_qt_base format_exc imported e) =
     (case imported of
        Inr pyqt4 \<Rightarrow>
          Inr \<lparr>qt_core = Module ((QtCore pyqt4)
                  \<lparr>Signal := Some (pyqtSignal (QtCore pyqt4)),
                   Slot := Some (pyqtSlot (QtCore pyqt4)),
                   Property := Some (pyqtProperty (QtCore pyqt4))\<rparr>),
               qt_gui = Module (QtGui pyqt4),
               dialog_base = Some (QDialog (QtGui pyqt4))\<rparr>
      | Inl ex \<Rightarrow> Inr \<lparr>qt_core = QTProxy, qt_gui = QTProxy, dialog_base = None\<rparr>) \<and>
   (QTProxy_getattr nm :: error + 'v) =
     Inl (TankError (''Looks like you are trying to run an App that uses a QT based UI, '' @
                     ''however the Katana engine could not find a PyQt installation!''))"
  by (simp add: define_qt_base_def QTProxy_getattr_def Let_def split: sum.splits error.splits)

theorem define_qt_base_never_raises_witness:
  "fst (define_qt_base str_error
          (Inl (ImportError ''No module named PyQt4'') :: error + string PyQt4)
          example_engine) =
     Inr \<lparr>qt_core = QTProxy, qt_gui = QTProxy, dialog_base = None\<rparr> \<and>
   fst (define_qt_base str_error
          (Inl (Exception ''broken'') :: error + string PyQt4) example_engine) =
     Inr \<lparr>qt_core = QTProxy, qt_gui = QTProxy, dialog_base = None\<rparr> \<and>
   fst (define_qt_base str_error (Inr example_pyqt4) example_engine) =
     Inr \<lparr>qt_core = Module ((QtCore example_pyqt4)
             \<lparr>Signal := Some ''pyqtSignal'', Slot := Some ''pyqtSlot'',
              Property := Some ''pyqtProperty''\<rparr>),
          qt_gui = Module \<lparr>QDialog = ''QDialog''\<rparr>,
          dialog_base = Some ''QDialog''\<rparr>"
  using define_qt_base_never_raises[of str_error
      "Inl (ImportError ''No module named PyQt4'') :: error + string PyQt4" example_engine]
    define_qt_base_never_raises[of str_error
      "Inl (Exception ''broken'') :: error + string PyQt4" example_engine]
    define_qt_base_never_raises[of str_error "Inr example_pyqt4" example_engine]
  by (simp add: define_qt_base_def Let_def example_pyqt4_def)

end
